theory Spec2Isabelle
  imports Complex_Main
begin

section \<open>Peak binning and feature assembly of the secondary-structure predictor\<close>

text \<open>
  The development embeds the functions of \<^verbatim>\<open>ssp.py\<close>: \<^verbatim>\<open>binning\<close>,
  \<^verbatim>\<open>generate_count_peaks_matrix\<close>, the methods \<^verbatim>\<open>get_input\<close> and
  \<^verbatim>\<open>combine_inputs\<close> of \<^verbatim>\<open>SecStrucPredictor\<close>, and the script body that
  reads the peaks, loops over the three grids and prints the result.

  Chemical shifts, intensities and regressor outputs are Python floats; they are modelled
  as the real numbers they denote, and the float operations as the exact ones, so rounding
  (of a difference of shifts, of a bin size such as 50 / 26) is outside the model. The cells of a count matrix (float zeros incremented by one) are modelled as
  natural numbers. Every exception the modelled code can raise is a value of \<open>error\<close>.
\<close>

datatype error = ZeroDivisionError | IndexError | ValueError string

definition and_then :: "error + 'a \<Rightarrow> ('a \<Rightarrow> error + 'b) \<Rightarrow> error + 'b" where
  "and_then r f = (case r of Inl e \<Rightarrow> Inl e | Inr v \<Rightarrow> f v)"

subsection \<open>\<^verbatim>\<open>binning\<close>\<close>

text \<open>
  \<^verbatim>\<open>int((ppm_value - shift_min) // binsize)\<close>: floor division of floats rounds toward
  negative infinity and raises \<^verbatim>\<open>ZeroDivisionError\<close> on a zero divisor; \<^verbatim>\<open>int\<close> of
  the integral result changes nothing.
\<close>

definition bin_index :: "real \<Rightarrow> real \<Rightarrow> real \<Rightarrow> int" where
  "bin_index ppm_value binsize shift_min = \<lfloor>(ppm_value - shift_min) / binsize\<rfloor>"

fun binning :: "real list \<Rightarrow> real \<Rightarrow> real \<Rightarrow> int \<Rightarrow> error + int list" where
  "binning [] binsize shift_min num_1D_grid = Inr []"
| "binning (ppm_value # shifts) binsize shift_min num_1D_grid =
     (if binsize = 0 then Inl ZeroDivisionError
      else let b = bin_index ppm_value binsize shift_min in
        if b > num_1D_grid - 1 then binning shifts binsize shift_min num_1D_grid
        else if b < 0 then binning shifts binsize shift_min num_1D_grid
        else (case binning shifts binsize shift_min num_1D_grid of
                Inl e \<Rightarrow> Inl e
              | Inr bin_indexes \<Rightarrow> Inr (b # bin_indexes)))"

subsection \<open>\<^verbatim>\<open>generate_count_peaks_matrix\<close>\<close>

text \<open>
  A two-dimensional array is the list of its rows. \<^verbatim>\<open>np.zeros\<close> raises
  \<^verbatim>\<open>ValueError\<close> on a negative dimension. An index \<open>i\<close> into an axis of length \<open>n\<close>
  is valid when \<open>- n \<le> i < n\<close>, a negative one counting from the end; any other raises
  \<^verbatim>\<open>IndexError\<close>.
\<close>

type_synonym matrix = "nat list list"

definition zeros :: "int \<Rightarrow> int \<Rightarrow> error + matrix" where
  "zeros rows cols =
     (if rows < 0 \<or> cols < 0 then Inl (ValueError ''negative dimensions are not allowed'')
      else Inr (replicate (nat rows) (replicate (nat cols) 0)))"

definition axis_index :: "nat \<Rightarrow> int \<Rightarrow> error + nat" where
  "axis_index n i =
     (if i < - int n \<or> int n \<le> i then Inl IndexError
      else Inr (nat (if i < 0 then i + int n else i)))"

definition increment :: "matrix \<Rightarrow> int \<Rightarrow> int \<Rightarrow> error + matrix" where
  "increment m r c =
     (case axis_index (length m) r of
        Inl e \<Rightarrow> Inl e
      | Inr r' \<Rightarrow>
          (case axis_index (length (m ! r')) c of
             Inl e \<Rightarrow> Inl e
           | Inr c' \<Rightarrow> Inr (m[r' := (m ! r')[c' := m ! r' ! c' + 1]])))"

fun count_loop :: "(int \<times> int) list \<Rightarrow> matrix \<Rightarrow> error + matrix" where
  "count_loop [] m = Inr m"
| "count_loop ((H_shift_bin, N_shift_bin) # ps) m =
     (case increment m N_shift_bin H_shift_bin of
        Inl e \<Rightarrow> Inl e
      | Inr m' \<Rightarrow> count_loop ps m')"

definition generate_count_peaks_matrix ::
  "int list \<Rightarrow> int list \<Rightarrow> int \<Rightarrow> int \<Rightarrow> error + matrix" where
  "generate_count_peaks_matrix binned_H_shifts binned_N_shifts H_num_1D_grid N_num_1D_grid =
     (case zeros N_num_1D_grid H_num_1D_grid of
        Inl e \<Rightarrow> Inl e
      | Inr count_peaks_matrix \<Rightarrow>
          count_loop (zip binned_H_shifts binned_N_shifts) count_peaks_matrix)"

definition sum_cells :: "matrix \<Rightarrow> nat" where
  "sum_cells m = sum_list (concat m)"

text \<open>The bin indexes \<^verbatim>\<open>binning\<close> keeps, and the shape of an array.\<close>

definition in_grid :: "int \<Rightarrow> int \<Rightarrow> bool" where
  "in_grid num_1D_grid b = (\<not> b > num_1D_grid - 1 \<and> \<not> b < 0)"

definition shape :: "nat \<Rightarrow> nat \<Rightarrow> matrix \<Rightarrow> bool" where
  "shape rows cols m = (length m = rows \<and> list_all (\<lambda>row. length row = cols) m)"

subsection \<open>\<^verbatim>\<open>SecStrucPredictor\<close>\<close>

text \<open>
  \<^verbatim>\<open>get_input\<close> reads the first three entries of the list it is given (fewer raise
  \<^verbatim>\<open>IndexError\<close>, more are ignored); \<^verbatim>\<open>combine_inputs\<close> flattens each with
  \<^verbatim>\<open>reshape(-1)\<close>, row after row, and concatenates the three lists. Neither inspects a
  shape.
\<close>

record predictor_inputs =
  matrix_20x10 :: matrix
  matrix_26x10 :: matrix
  matrix_10x8 :: matrix

fun get_input :: "matrix list \<Rightarrow> error + predictor_inputs" where
  "get_input (m0 # m1 # m2 # rest) =
     Inr \<lparr>matrix_20x10 = m0, matrix_26x10 = m1, matrix_10x8 = m2\<rparr>"
| "get_input input_matrices = Inl IndexError"

definition combine_inputs :: "predictor_inputs \<Rightarrow> nat list" where
  "combine_inputs self =
     concat (matrix_20x10 self) @ concat (matrix_26x10 self) @ concat (matrix_10x8 self)"

text \<open>The two calls the script makes one after the other on the list of matrices.\<close>

definition assemble :: "matrix list \<Rightarrow> error + nat list" where
  "assemble input_matrices =
     and_then (get_input input_matrices) (\<lambda>self. Inr (combine_inputs self))"

subsection \<open>The script: reading the peaks\<close>

text \<open>
  The peaks come from a CSV file (the bundled test file or the one named on the command
  line, read the same way from the columns \<^verbatim>\<open>X_shift\<close> and \<^verbatim>\<open>Y_shift\<close>) or from the
  peak list of the current Topspin dataset. Only the Topspin branch checks for an empty
  list, and only it filters by relative intensity. The maximum intensity is a numpy float,
  so dividing by a zero maximum gives nan or an infinity instead of raising; no intensity
  exceeds the maximum, so none of these quotients is greater than zero.
\<close>

record csv_row =
  X_shift :: real
  Y_shift :: real

record peak =
  intensity :: real
  position :: "real \<times> real"

datatype peak_source =
  TestFile "csv_row list"
| CsvFile "csv_row list"
| Topspin "peak list"

definition no_peaks_message :: string where
  "no_peaks_message = ''NO PEAKS SELECTED! Use the pp command or select the peaks manually!''"

definition rel_intensity_positive :: "real \<Rightarrow> real \<Rightarrow> bool" where
  "rel_intensity_positive i max_intensity =
     (if max_intensity = 0 then False else i / max_intensity > 0)"

text \<open>\<^verbatim>\<open>np.max\<close>, which the script calls on a list that is not empty.\<close>

fun max_list :: "real list \<Rightarrow> real" where
  "max_list [] = 0"
| "max_list [x] = x"
| "max_list (x # xs) = max x (max_list xs)"

fun read_shifts :: "peak_source \<Rightarrow> error + (real list \<times> real list)" where
  "read_shifts (TestFile peak_list) = Inr (map X_shift peak_list, map Y_shift peak_list)"
| "read_shifts (CsvFile peak_list) = Inr (map X_shift peak_list, map Y_shift peak_list)"
| "read_shifts (Topspin peak_list) =
     (if length peak_list = 0 then Inl (ValueError no_peaks_message)
      else let max_intensity = max_list (map intensity peak_list);
               kept = filter (\<lambda>p. rel_intensity_positive (intensity p) max_intensity) peak_list
           in Inr (map (\<lambda>p. fst (position p)) kept, map (\<lambda>p. snd (position p)) kept))"

subsection \<open>The script: the loop over the grids\<close>

definition H_shift_max :: int where "H_shift_max = 11"
definition H_shift_min :: int where "H_shift_min = 6"
definition N_shift_max :: int where "N_shift_max = 140"
definition N_shift_min :: int where "N_shift_min = 90"

definition grids :: "(int \<times> int) list" where
  "grids = [(10, 20), (10, 26), (8, 10)]"

text \<open>\<^verbatim>\<open>/\<close> on two Python integers: the quotient as a float, an error on zero.\<close>

definition true_div :: "int \<Rightarrow> int \<Rightarrow> error + real" where
  "true_div a b = (if b = 0 then Inl ZeroDivisionError else Inr (real_of_int a / real_of_int b))"

text \<open>The body of the loop, for one pair of grid sizes.\<close>

definition count_matrix_for :: "real list \<Rightarrow> real list \<Rightarrow> int \<Rightarrow> int \<Rightarrow> error + matrix" where
  "count_matrix_for H_shifts N_shifts H_num_1D_grid N_num_1D_grid =
     and_then (true_div (H_shift_max - H_shift_min) H_num_1D_grid) (\<lambda>H_binsize.
     and_then (true_div (N_shift_max - N_shift_min) N_num_1D_grid) (\<lambda>N_binsize.
     and_then (binning H_shifts H_binsize (real_of_int H_shift_min) H_num_1D_grid) (\<lambda>binned_H_shifts.
     and_then (binning N_shifts N_binsize (real_of_int N_shift_min) N_num_1D_grid) (\<lambda>binned_N_shifts.
       generate_count_peaks_matrix binned_H_shifts binned_N_shifts H_num_1D_grid N_num_1D_grid))))"

fun grid_loop :: "real list \<Rightarrow> real list \<Rightarrow> (int \<times> int) list \<Rightarrow> error + matrix list" where
  "grid_loop H_shifts N_shifts [] = Inr []"
| "grid_loop H_shifts N_shifts ((H_num_1D_grid, N_num_1D_grid) # gs) =
     and_then (count_matrix_for H_shifts N_shifts H_num_1D_grid N_num_1D_grid) (\<lambda>m.
     and_then (grid_loop H_shifts N_shifts gs) (\<lambda>input_matrices.
       Inr (m # input_matrices)))"

definition feature_vector :: "real list \<Rightarrow> real list \<Rightarrow> error + nat list" where
  "feature_vector H_shifts N_shifts =
     and_then (grid_loop H_shifts N_shifts grids) assemble"

text \<open>
  The pairing the specification asks for (section 4.2), for comparison with what the loop
  body feeds to \<^verbatim>\<open>generate_count_peaks_matrix\<close>: both indexes of a peak are computed
  together, and the peak is kept only when both lie in their grid.
\<close>

definition joint_binning_spec ::
  "(real \<times> real) list \<Rightarrow> real \<Rightarrow> real \<Rightarrow> int \<Rightarrow> real \<Rightarrow> real \<Rightarrow> int \<Rightarrow> (int \<times> int) list" where
  "joint_binning_spec peaks H_binsize H_min Hn N_binsize N_min Nn =
     filter (\<lambda>(h, n). in_grid Hn h \<and> in_grid Nn n)
       (map (\<lambda>(x, y). (bin_index x H_binsize H_min, bin_index y N_binsize N_min)) peaks)"

subsection \<open>The script: the printed result\<close>

text \<open>
  \<^verbatim>\<open>round(x, 3)\<close> and the format \<^verbatim>\<open>:.1f\<close> both round to the nearest
  decimal with the given number of places, a tie going to the even neighbour. The printed
  line is modelled by its three labels, in the order printed, each with the number its
  decimal string denotes.
\<close>

definition rint :: "real \<Rightarrow> int" where
  "rint y =
     (let f = \<lfloor>y\<rfloor>; d = y - real_of_int f
      in if d < 1 / 2 then f else if d > 1 / 2 then f + 1 else if even f then f else f + 1)"

definition round3 :: "real \<Rightarrow> real" where
  "round3 x = real_of_int (rint (x * 1000)) / 1000"

definition format_1f :: "real \<Rightarrow> real" where
  "format_1f y = real_of_int (rint (y * 10)) / 10"

definition item :: "real list \<Rightarrow> nat \<Rightarrow> error + real" where
  "item prediction i = (if i < length prediction then Inr (prediction ! i) else Inl IndexError)"

definition report :: "real list \<Rightarrow> error + (string \<times> real) list" where
  "report prediction =
     and_then (item prediction 2) (\<lambda>helix.
     and_then (item prediction 1) (\<lambda>sheet.
     and_then (item prediction 0) (\<lambda>coil.
       Inr [(''Helix'', format_1f (round3 helix * 100)),
            (''Sheet'', format_1f (round3 sheet * 100)),
            (''Coil'', format_1f (round3 coil * 100))])))"

text \<open>
  The script up to the printed line; the regressor is a parameter, called once on the
  combined inputs.
\<close>

definition main :: "(nat list \<Rightarrow> real list) \<Rightarrow> peak_source \<Rightarrow> error + (string \<times> real) list" where
  "main predict_structure_composition source =
     and_then (read_shifts source) (\<lambda>(H_shifts, N_shifts).
     and_then (feature_vector H_shifts N_shifts) (\<lambda>combined_inputs.
       report (predict_structure_composition combined_inputs)))"

section \<open>Properties of binning and counting\<close>


lemma binning_filter:
  "binsize \<noteq> 0 \<Longrightarrow>
   binning shifts binsize shift_min n =
     Inr (filter (in_grid n) (map (\<lambda>v. bin_index v binsize shift_min) shifts))"
  by (induction shifts) (auto simp: Let_def in_grid_def)

lemma binning_zero:
  "binning shifts 0 shift_min n = (if shifts = [] then Inr [] else Inl ZeroDivisionError)"
  by (cases shifts) auto

lemma binning_range:
  assumes "binning shifts binsize shift_min n = Inr bs"
  shows "\<forall>b\<in>set bs. 0 \<le> b \<and> b \<le> n - 1"
proof (cases "binsize = 0")
  case True
  with assms show ?thesis by (simp add: binning_zero split: if_splits)
next
  case False
  from binning_filter[OF False, of shifts shift_min n] assms
  show ?thesis by (auto simp: in_grid_def)
qed

lemma sum_list_incr:
  fixes xs :: "nat list"
  shows "i < length xs \<Longrightarrow> sum_list (xs[i := Suc (xs ! i)]) = Suc (sum_list xs)"
  by (induction xs arbitrary: i) (auto simp: nth_Cons split: nat.splits)

lemma sum_list_concat_rows:
  fixes m :: "nat list list"
  shows "sum_list (concat m) = sum_list (map sum_list m)"
  by (induction m) auto

lemma sum_cells_update:
  assumes "r < length m" "c < length (m ! r)"
  shows "sum_cells (m[r := (m ! r)[c := m ! r ! c + 1]]) = sum_cells m + 1"
proof -
  have "sum_cells (m[r := (m ! r)[c := m ! r ! c + 1]])
        = sum_list ((map sum_list m)[r := sum_list ((m ! r)[c := Suc (m ! r ! c)])])"
    by (simp add: sum_cells_def sum_list_concat_rows map_update)
  also have "\<dots> = sum_list ((map sum_list m)[r := Suc ((map sum_list m) ! r)])"
    using assms by (simp add: sum_list_incr)
  also have "\<dots> = Suc (sum_list (map sum_list m))"
    using assms(1) by (simp only: sum_list_incr length_map)
  finally show ?thesis by (simp add: sum_cells_def sum_list_concat_rows)
qed

lemma shape_update:
  assumes "shape rows cols m" "r < rows"
  shows "shape rows cols (m[r := (m ! r)[c := x]])"
  using assms by (auto simp: shape_def list_all_length nth_list_update)

lemma increment_in_range:
  assumes "shape rows cols m" "0 \<le> r" "r < int rows" "0 \<le> c" "c < int cols"
  shows "increment m r c = Inr (m[nat r := (m ! nat r)[nat c := m ! nat r ! nat c + 1]])"
  using assms by (auto simp: increment_def axis_index_def shape_def list_all_length)

lemma count_loop_in_range:
  assumes "shape rows cols m"
    and "\<forall>(h, n)\<in>set ps. 0 \<le> h \<and> h < int cols \<and> 0 \<le> n \<and> n < int rows"
  shows "\<exists>m'. count_loop ps m = Inr m' \<and> shape rows cols m'
           \<and> sum_cells m' = sum_cells m + length ps"
  using assms
proof (induction ps arbitrary: m)
  case Nil
  then show ?case by simp
next
  case (Cons p ps)
  obtain h n where p: "p = (h, n)" by (cases p)
  from Cons.prems p have r: "0 \<le> h" "h < int cols" "0 \<le> n" "n < int rows" by auto
  let ?m = "m[nat n := (m ! nat n)[nat h := m ! nat n ! nat h + 1]]"
  have inc: "increment m n h = Inr ?m"
    using increment_in_range[OF Cons.prems(1) r(3,4) r(1,2)] .
  have sh: "shape rows cols ?m"
    using shape_update[OF Cons.prems(1)] r by simp
  have "nat n < length m" "nat h < length (m ! nat n)"
    using Cons.prems(1) r by (auto simp: shape_def list_all_length)
  then have sm: "sum_cells ?m = sum_cells m + 1" by (rule sum_cells_update)
  from Cons.IH[OF sh] Cons.prems(2) obtain m' where
    "count_loop ps ?m = Inr m'" "shape rows cols m'" "sum_cells m' = sum_cells ?m + length ps"
    by auto
  with inc sm p show ?case by simp
qed

lemma shape_zeros: "shape rows cols (replicate rows (replicate cols 0))"
  by (simp add: shape_def list_all_length)

lemma sum_cells_zeros: "sum_cells (replicate rows (replicate cols 0)) = 0"
  by (simp add: sum_cells_def sum_list_concat_rows)

lemma gcpm_in_range:
  assumes "0 \<le> Hn" "0 \<le> Nn"
    and "\<forall>h\<in>set bH. 0 \<le> h \<and> h \<le> Hn - 1"
    and "\<forall>n\<in>set bN. 0 \<le> n \<and> n \<le> Nn - 1"
  shows "\<exists>m. generate_count_peaks_matrix bH bN Hn Nn = Inr m \<and> shape (nat Nn) (nat Hn) m
           \<and> sum_cells m = min (length bH) (length bN)"
proof -
  have "\<forall>(h, n)\<in>set (zip bH bN). 0 \<le> h \<and> h < int (nat Hn) \<and> 0 \<le> n \<and> n < int (nat Nn)"
  proof (clarify)
    fix h n assume "(h, n) \<in> set (zip bH bN)"
    then have "h \<in> set bH" "n \<in> set bN"
      by (auto dest: set_zip_leftD set_zip_rightD)
    with assms show "0 \<le> h \<and> h < int (nat Hn) \<and> 0 \<le> n \<and> n < int (nat Nn)"
      by auto
  qed
  from count_loop_in_range[OF shape_zeros this] assms(1,2)
  show ?thesis
    by (auto simp: generate_count_peaks_matrix_def zeros_def sum_cells_zeros)
qed








text \<open>
  C9. Every index \<^verbatim>\<open>binning\<close> returns lies in \<open>[0, num_1D_grid - 1]\<close>. So when the
  two index lists come from \<^verbatim>\<open>binning\<close> with the bin counts that
  \<^verbatim>\<open>generate_count_peaks_matrix\<close> is given, no increment raises \<^verbatim>\<open>IndexError\<close>,
  and for bin counts that are not negative the matrix is returned, with
  \<open>N_num_1D_grid\<close> rows of \<open>H_num_1D_grid\<close> cells.
\<close>

theorem binned_indexes_address_cells:
  assumes "binning H_shifts H_binsize H_min Hn = Inr bH"
    and "binning N_shifts N_binsize N_min Nn = Inr bN"
  shows "(\<forall>h\<in>set bH. 0 \<le> h \<and> h \<le> Hn - 1) \<and> (\<forall>n\<in>set bN. 0 \<le> n \<and> n \<le> Nn - 1)
         \<and> generate_count_peaks_matrix bH bN Hn Nn \<noteq> Inl IndexError
         \<and> (0 \<le> Hn \<and> 0 \<le> Nn \<longrightarrow>
              (\<exists>m. generate_count_peaks_matrix bH bN Hn Nn = Inr m \<and> shape (nat Nn) (nat Hn) m))"
proof -
  have rH: "\<forall>h\<in>set bH. 0 \<le> h \<and> h \<le> Hn - 1" using assms(1) by (rule binning_range)
  have rN: "\<forall>n\<in>set bN. 0 \<le> n \<and> n \<le> Nn - 1" using assms(2) by (rule binning_range)
  have ok: "\<exists>m. generate_count_peaks_matrix bH bN Hn Nn = Inr m \<and> shape (nat Nn) (nat Hn) m"
    if "0 \<le> Hn" "0 \<le> Nn"
    using gcpm_in_range[OF that rH rN] by blast
  have "generate_count_peaks_matrix bH bN Hn Nn \<noteq> Inl IndexError"
  proof (cases "0 \<le> Hn \<and> 0 \<le> Nn")
    case True
    with ok show ?thesis by auto
  next
    case False
    then show ?thesis by (auto simp: generate_count_peaks_matrix_def zeros_def)
  qed
  with rH rN ok show ?thesis by blast
qed

theorem binned_indexes_address_cells_witness:
  "binning [5, 7, 13 / 2] (1 / 2) 6 10 = Inr [2, 1]
   \<and> binning [100, 150] (5 / 2) 90 20 = Inr [4]
   \<and> (\<exists>m. generate_count_peaks_matrix [2, 1] [4] 10 20 = Inr m \<and> shape 20 10 m)"
proof -
  have a: "binning [5, 7, 13 / 2] (1 / 2) 6 10 = Inr [2, 1]" by (simp add: bin_index_def)
  have b: "binning [100, 150] (5 / 2) 90 20 = Inr [4]" by (simp add: bin_index_def)
  from binned_indexes_address_cells[OF a b] a b show ?thesis by simp
qed



section \<open>Properties of the pipeline\<close>

lemma length_concat_shape: "shape rows cols m \<Longrightarrow> length (concat m) = rows * cols"
  by (induction m arbitrary: rows) (auto simp: shape_def)


text \<open>
  For positive grid sizes the loop body raises nothing: it returns a matrix of
  \<open>N_num_1D_grid\<close> rows and \<open>H_num_1D_grid\<close> columns whose cells sum to the smaller of
  the two numbers of kept indexes.
\<close>

lemma count_matrix_for_ok:
  assumes "0 < Hn" "0 < Nn"
  shows "\<exists>m. count_matrix_for H N Hn Nn = Inr m \<and> shape (nat Nn) (nat Hn) m
           \<and> sum_cells m =
               min (length (filter (in_grid Hn) (map (\<lambda>v. bin_index v (5 / real_of_int Hn) 6) H)))
                   (length (filter (in_grid Nn) (map (\<lambda>v. bin_index v (50 / real_of_int Nn) 90) N)))"
proof -
  let ?bH = "filter (in_grid Hn) (map (\<lambda>v. bin_index v (5 / real_of_int Hn) 6) H)"
  let ?bN = "filter (in_grid Nn) (map (\<lambda>v. bin_index v (50 / real_of_int Nn) 90) N)"
  have nzH: "5 / real_of_int Hn \<noteq> 0" and nzN: "50 / real_of_int Nn \<noteq> 0"
    using assms by simp_all
  have bH: "binning H (5 / real_of_int Hn) 6 Hn = Inr ?bH" by (rule binning_filter[OF nzH])
  have bN: "binning N (50 / real_of_int Nn) 90 Nn = Inr ?bN" by (rule binning_filter[OF nzN])
  have cm: "count_matrix_for H N Hn Nn = generate_count_peaks_matrix ?bH ?bN Hn Nn"
    using assms bH bN
    by (simp add: count_matrix_for_def true_div_def and_then_def H_shift_max_def
          H_shift_min_def N_shift_max_def N_shift_min_def)
  have "\<forall>h\<in>set ?bH. 0 \<le> h \<and> h \<le> Hn - 1" "\<forall>n\<in>set ?bN. 0 \<le> n \<and> n \<le> Nn - 1"
    by (auto simp: in_grid_def)
  from gcpm_in_range[OF _ _ this] assms cm show ?thesis by simp
qed

lemma length_filter_eq_iff: "length (filter P xs) = length xs \<longleftrightarrow> list_all P xs"
proof (induction xs)
  case Nil
  then show ?case by simp
next
  case (Cons x xs)
  have "length (filter P xs) \<noteq> Suc (length xs)"
    using length_filter_le[of P xs] by linarith
  with Cons show ?case by auto
qed

text \<open>
  The parts of the sum property that hold whatever the pairing: with one shift per axis
  for each peak, the cells sum to at most the number of peaks, and to exactly that number
  just when no index on either axis is out of its grid.
\<close>

lemma count_matrix_sum_bound:
  assumes "0 < Hn" "0 < Nn" "length H = length N"
  shows "\<exists>m. count_matrix_for H N Hn Nn = Inr m \<and> sum_cells m \<le> length H
           \<and> (sum_cells m = length H \<longleftrightarrow>
                list_all (\<lambda>v. in_grid Hn (bin_index v (5 / real_of_int Hn) 6)) H
                \<and> list_all (\<lambda>v. in_grid Nn (bin_index v (50 / real_of_int Nn) 90)) N)"
proof -
  let ?iH = "map (\<lambda>v. bin_index v (5 / real_of_int Hn) 6) H"
  let ?iN = "map (\<lambda>v. bin_index v (50 / real_of_int Nn) 90) N"
  from count_matrix_for_ok[OF assms(1,2), of H N] obtain m where
    m: "count_matrix_for H N Hn Nn = Inr m"
       "sum_cells m = min (length (filter (in_grid Hn) ?iH)) (length (filter (in_grid Nn) ?iN))"
    by blast
  have lH: "length (filter (in_grid Hn) ?iH) \<le> length H"
    using length_filter_le[of "in_grid Hn" ?iH] by simp
  have lN: "length (filter (in_grid Nn) ?iN) \<le> length H"
    using length_filter_le[of "in_grid Nn" ?iN] assms(3) by simp
  have eH: "length (filter (in_grid Hn) ?iH) = length H
              \<longleftrightarrow> list_all (\<lambda>v. in_grid Hn (bin_index v (5 / real_of_int Hn) 6)) H"
    using length_filter_eq_iff[of "in_grid Hn" ?iH] by (simp add: list_all_iff)
  have eN: "length (filter (in_grid Nn) ?iN) = length H
              \<longleftrightarrow> list_all (\<lambda>v. in_grid Nn (bin_index v (50 / real_of_int Nn) 90)) N"
    using length_filter_eq_iff[of "in_grid Nn" ?iN] assms(3) by (simp add: list_all_iff)
  from m lH lN eH eN show ?thesis by auto
qed

lemma concat_zeros: "concat (replicate n (replicate k (0::nat))) = replicate (n * k) 0"
  by (induction n) (simp_all add: replicate_add)

lemma count_matrix_for_empty:
  "0 < Hn \<Longrightarrow> 0 < Nn \<Longrightarrow>
   count_matrix_for [] [] Hn Nn = Inr (replicate (nat Nn) (replicate (nat Hn) 0))"
  by (simp add: count_matrix_for_def true_div_def and_then_def generate_count_peaks_matrix_def
        zeros_def)

lemma feature_vector_empty: "feature_vector [] [] = Inr (replicate 540 0)"
proof -
  have "concat (replicate 20 (replicate 10 (0::nat))) @ concat (replicate 26 (replicate 10 0))
          @ concat (replicate 10 (replicate 8 0)) = replicate 540 0"
    by (simp only: concat_zeros replicate_add[symmetric]) simp
  then show ?thesis
    by (simp add: feature_vector_def grids_def and_then_def assemble_def combine_inputs_def
          count_matrix_for_empty)
qed

lemma get_input_short: "length ms < 3 \<Longrightarrow> get_input ms = Inl IndexError"
  by (cases ms rule: get_input.cases) auto





text \<open>
  C1. The specification asks for joint binning of the two axes of a peak. The loop body bins each axis on its own and pairs
  the two index lists by position. For the peaks \<open>(5, 100)\<close> and \<open>(7, 120)\<close> and the
  grid of 10 by 20 bins, the first peak is out of range on the H axis only: the H list
  keeps the index 2 of the second peak, the N list keeps 4 and 12, and the pair counted
  is \<open>(2, 4)\<close>, the H index of the second peak with the N index of the first. The cell
  in row 4 is incremented; the cell in row 12, where the only peak inside the grid lies,
  stays 0. The joint pairing of the specification gives \<open>(2, 12)\<close>.
\<close>

theorem independent_binning_misaligns:
  "binning [5, 7] (1 / 2) 6 10 = Inr [2]
   \<and> binning [100, 120] (5 / 2) 90 20 = Inr [4, 12]
   \<and> zip [2 :: int] [4 :: int, 12] = [(2, 4)]
   \<and> joint_binning_spec [(5, 100), (7, 120)] (1 / 2) 6 10 (5 / 2) 90 20 = [(2, 12)]
   \<and> (\<exists>m. count_matrix_for [5, 7] [100, 120] 10 20 = Inr m \<and> m ! 4 ! 2 = 1 \<and> m ! 12 ! 2 = 0)"
proof -
  have "map_sum id (\<lambda>m. (m ! 4 ! 2, m ! 12 ! 2)) (count_matrix_for [5, 7] [100, 120] 10 20)
        = Inr (1, 0)"
    by code_simp
  then have "\<exists>m. count_matrix_for [5, 7] [100, 120] 10 20 = Inr m \<and> m ! 4 ! 2 = 1 \<and> m ! 12 ! 2 = 0"
    by (cases "count_matrix_for [5, 7] [100, 120] 10 20") auto
  then show ?thesis
    by (simp add: bin_index_def joint_binning_spec_def in_grid_def)
qed

text \<open>
  C2. The specification says the cells sum to the number of peaks in range on both
  axes. For the peaks \<open>(5, 100)\<close> and \<open>(7, 150)\<close> and the grid of 10 by 20 bins, no
  peak is in range on both axes, yet the H index of the second peak is paired with the N
  index of the first and the cells sum to 1.
\<close>

theorem sum_counts_peak_not_in_both_ranges:
  "map_sum id sum_cells (count_matrix_for [5, 7] [100, 150] 10 20) = Inr 1
   \<and> length (joint_binning_spec [(5, 100), (7, 150)] (1 / 2) 6 10 (5 / 2) 90 20) = 0"
proof -
  have "map_sum id sum_cells (count_matrix_for [5, 7] [100, 150] 10 20) = Inr 1"
    by code_simp
  then show ?thesis
    by (simp add: bin_index_def joint_binning_spec_def in_grid_def)
qed



text \<open>
  C6. Only the Topspin branch checks for an empty peak list. With a CSV file that has no
  rows, as the test file or as the file named on the command line, nothing is raised: the
  three grids are binned and counted, and the regressor is called on 540 zeros. With an
  empty Topspin peak list the script raises \<^verbatim>\<open>ValueError\<close> before any binning.
\<close>

theorem empty_csv_reaches_regressor:
  "main predict (CsvFile []) = report (predict (replicate 540 0))
   \<and> main predict (TestFile []) = report (predict (replicate 540 0))
   \<and> main predict (Topspin []) = Inl (ValueError no_peaks_message)"
  by (simp add: main_def and_then_def feature_vector_empty)

text \<open>
  C7, as amended. Nothing checks a shape: three matrices of one cell each are combined
  into three numbers and no error is raised. For every list of at least three matrices
  the combined inputs are the flattenings of the first three, one after the other; their
  length is 540 when the three have 20 by 10, 26 by 10 and 10 by 8 cells. Only a list of
  fewer than three matrices fails, with \<^verbatim>\<open>IndexError\<close>.
\<close>

theorem assemble_wrong_shapes_no_error:
  "assemble [[[1]], [[2]], [[3]]] = Inr [1, 2, 3]
   \<and> \<not> shape 20 10 [[1]] \<and> length [1 :: nat, 2, 3] \<noteq> 540"
  by (simp add: assemble_def and_then_def combine_inputs_def shape_def)

theorem assemble_concatenates_unchecked:
  "assemble (m0 # m1 # m2 # rest) = Inr (concat m0 @ concat m1 @ concat m2)
   \<and> (shape 20 10 m0 \<and> shape 26 10 m1 \<and> shape 10 8 m2
        \<longrightarrow> length (concat m0 @ concat m1 @ concat m2) = 540)
   \<and> (length ms < 3 \<longrightarrow> assemble ms = Inl IndexError)"
  by (auto simp: assemble_def and_then_def combine_inputs_def length_concat_shape
        get_input_short)

theorem assemble_concatenates_unchecked_witness:
  "shape 20 10 (replicate 20 (replicate 10 0)) \<and> shape 26 10 (replicate 26 (replicate 10 0))
   \<and> shape 10 8 (replicate 10 (replicate 8 0))
   \<and> assemble [replicate 20 (replicate 10 0), replicate 26 (replicate 10 0),
                 replicate 10 (replicate 8 0)] = Inr (replicate 540 0)
   \<and> length (replicate 540 (0 :: nat)) = 540
   \<and> length [[[7 :: nat]]] < 3 \<and> assemble [[[7]]] = Inl IndexError"
proof -
  have c: "concat (replicate 20 (replicate 10 (0::nat))) @ concat (replicate 26 (replicate 10 0))
          @ concat (replicate 10 (replicate 8 0)) = replicate 540 0"
    by (simp only: concat_zeros replicate_add[symmetric]) simp
  from assemble_concatenates_unchecked[of "replicate 20 (replicate 10 0)"
      "replicate 26 (replicate 10 0)" "replicate 10 (replicate 8 0)" "[]" "[[[7]]]"]
    shape_zeros[of 20 10] shape_zeros[of 26 10] shape_zeros[of 10 8] c
  show ?thesis by simp
qed



end
